theory Spec2Isabelle
  imports Complex_Main "HOL-Library.Char_ord" "HOL-Library.List_Lexorder"
    "HOL-Library.Code_Target_Numeral"
begin

section \<open>Shift records, profit calculation and the two storage backends\<close>

text \<open>
  A shallow embedding of \<^verbatim>\<open>src/sheet.py\<close> (the profit calculator and
  \<^verbatim>\<open>add_shift\<close> of the spreadsheet backend), \<^verbatim>\<open>src/database.py\<close> (the SQLite
  backend) and the message tiers of \<^verbatim>\<open>src/main.py\<close>.

  Conventions of the embedding.
  \<^item> Python \<^verbatim>\<open>str\<close> is \<open>string\<close>: the UTF-8 bytes of the text. Digits are the
    ASCII digits; the other Unicode decimal digits that Python's \<^verbatim>\<open>\d\<close> and
    \<^verbatim>\<open>float\<close> also read are outside the model.
  \<^item> A finite Python \<^verbatim>\<open>float\<close> is a \<open>real\<close>: binary rounding is not modelled.
    The profit calculator is modelled on the finite values. The SQLite backend stores
    what \<^verbatim>\<open>float\<close> returns, so its values are of the type \<open>pyfloat\<close>, which adds
    the two infinities and NaN.
  \<^item> A raised exception is a \<open>None\<close> of an option type; every \<^verbatim>\<open>except\<close> branch of
    the source is a branch of the model.
  \<^item> A storage operation returns its result together with the new stored state.
    Failures of the transport itself (sqlite3 I/O errors, network errors of the
    spreadsheet API) do not depend on the arguments and are not modelled.
\<close>

subsection \<open>Ordered-choice matching, as \<^verbatim>\<open>re.match\<close> does it\<close>

text \<open>
  \<^verbatim>\<open>datetime.strptime\<close> compiles a format into a regular expression and calls
  \<^verbatim>\<open>re.match\<close>. A directive is an ordered choice (\<^verbatim>\<open>%H\<close> is
  \<^verbatim>\<open>2[0-3]|[0-1]\d|\d\<close>); the matcher takes the first alternative for which the rest
  of the pattern still matches. A matcher is modelled by the list of its successes, in
  the order in which backtracking tries them: the value read and the unread rest.
\<close>

type_synonym 'a matcher = "string \<Rightarrow> ('a \<times> string) list"

definition digit_of :: "char \<Rightarrow> nat option" where
  "digit_of c =
     (let n = (of_char c :: nat) in if 48 \<le> n \<and> n \<le> 57 then Some (n - 48) else None)"

definition one_digit :: "(nat \<Rightarrow> bool) \<Rightarrow> nat matcher" where
  "one_digit ok s =
     (case s of
        [] \<Rightarrow> []
      | c # rest \<Rightarrow>
          (case digit_of c of
             None \<Rightarrow> []
           | Some a \<Rightarrow> if ok a then [(a, rest)] else []))"

definition two_digits :: "(nat \<Rightarrow> bool) \<Rightarrow> (nat \<Rightarrow> bool) \<Rightarrow> nat matcher" where
  "two_digits ok1 ok2 s =
     concat (map (\<lambda>(a, r). map (\<lambda>(b, r'). (10 * a + b, r')) (one_digit ok2 r))
                 (one_digit ok1 s))"

definition literal :: "char \<Rightarrow> unit matcher" where
  "literal c s = (case s of [] \<Rightarrow> [] | x # rest \<Rightarrow> if x = c then [((), rest)] else [])"

definition then_m :: "'a matcher \<Rightarrow> 'b matcher \<Rightarrow> ('a \<times> 'b) matcher" where
  "then_m p q s =
     concat (map (\<lambda>(a, r). map (\<lambda>(b, r'). ((a, b), r')) (q r)) (p s))"

definition any_digit :: "nat \<Rightarrow> bool" where
  "any_digit d = True"

text \<open>\<^verbatim>\<open>%H\<close>: \<^verbatim>\<open>2[0-3]|[0-1]\d|\d\<close>; \<^verbatim>\<open>%M\<close>: \<^verbatim>\<open>[0-5]\d|\d\<close>.\<close>

definition hour_m :: "nat matcher" where
  "hour_m s =
     two_digits (\<lambda>a. a = 2) (\<lambda>b. b \<le> 3) s
     @ two_digits (\<lambda>a. a \<le> 1) any_digit s
     @ one_digit any_digit s"

definition minute_m :: "nat matcher" where
  "minute_m s = two_digits (\<lambda>a. a \<le> 5) any_digit s @ one_digit any_digit s"

subsection \<open>\<^verbatim>\<open>datetime.strptime(s, "%H:%M")\<close>\<close>

text \<open>
  The result of \<^verbatim>\<open>strptime\<close> with a time-only format is a datetime on the default
  day, 1 January 1900: \<open>day\<close> counts the days after that day.
\<close>

record datetime =
  day :: nat
  hour :: nat
  minute :: nat

text \<open>
  \<^verbatim>\<open>strptime\<close> raises ValueError when the regular expression does not match, and
  when it matches only a proper prefix ("unconverted data remains").
\<close>

definition strptime_HM :: "string \<Rightarrow> datetime option" where
  "strptime_HM s =
     (case then_m hour_m (then_m (literal CHR '':'') minute_m) s of
        [] \<Rightarrow> None
      | ((h, (u, m)), rest) # alternatives \<Rightarrow>
          if rest = [] then Some \<lparr>day = 0, hour = h, minute = m\<rparr> else None)"

definition seconds_of :: "datetime \<Rightarrow> int" where
  "seconds_of t = 86400 * int (day t) + 3600 * int (hour t) + 60 * int (minute t)"

definition datetime_less :: "datetime \<Rightarrow> datetime \<Rightarrow> bool" where
  "datetime_less a b = (seconds_of a < seconds_of b)"

definition add_days :: "datetime \<Rightarrow> nat \<Rightarrow> datetime" where
  "add_days t n = t\<lparr>day := day t + n\<rparr>"

subsection \<open>\<^verbatim>\<open>GoogleSheetsManager._calculate_hours\<close>\<close>

text \<open>
  \<^verbatim>\<open>
  start = datetime.strptime(start_time, "%H:%M")
  end = datetime.strptime(end_time, "%H:%M")
  if end < start:
      end += timedelta(days=1)
  duration = end - start
  hours = duration.total_seconds() / 3600
  return hours
  \<close>
  and \<^verbatim>\<open>return 0\<close> in the \<^verbatim>\<open>except\<close> branch.
\<close>

definition calculate_hours :: "string \<Rightarrow> string \<Rightarrow> real" where
  "calculate_hours start_time end_time =
     (case strptime_HM start_time of
        None \<Rightarrow> 0
      | Some start \<Rightarrow>
          (case strptime_HM end_time of
             None \<Rightarrow> 0
           | Some end0 \<Rightarrow>
               (let end1 = (if datetime_less end0 start then add_days end0 1 else end0);
                    duration = seconds_of end1 - seconds_of start
                in real_of_int duration / 3600)))"

text \<open>The time of day of a datetime, in fractional hours.\<close>

definition clock_hours :: "datetime \<Rightarrow> real" where
  "clock_hours t = real (hour t) + real (minute t) / 60"

subsection \<open>\<^verbatim>\<open>float(s)\<close> on a string\<close>

text \<open>
  CPython first checks the digit-group underscores (an underscore must stand between
  two digits) and removes them, strips the ASCII whitespace at both ends, and reads an
  optional sign, digits with an optional point (at least one digit), and an optional
  exponent; the whole string must be consumed, else ValueError. \<open>py_float\<close> is
  this reading of a numeric literal, with the real number that the literal denotes as
  its value. \<open>float_of_text\<close> below adds the two things that make the result of
  \<^verbatim>\<open>float\<close> something else than a real number: the literals \<^verbatim>\<open>inf\<close>,
  \<^verbatim>\<open>infinity\<close> and \<^verbatim>\<open>nan\<close>, and the overflow to infinity.
\<close>

definition is_digit :: "char \<Rightarrow> bool" where
  "is_digit c = (digit_of c \<noteq> None)"

definition is_space :: "char \<Rightarrow> bool" where
  "is_space c = (let n = (of_char c :: nat) in (9 \<le> n \<and> n \<le> 13) \<or> n = 32)"

definition strip :: "string \<Rightarrow> string" where
  "strip s = rev (dropWhile is_space (rev (dropWhile is_space s)))"

fun underscores_ok :: "char \<Rightarrow> string \<Rightarrow> bool" where
  "underscores_ok prev [] = (prev \<noteq> CHR ''_'')"
| "underscores_ok prev (c # cs) =
     (if c = CHR ''_'' then is_digit prev \<and> underscores_ok c cs
      else if prev = CHR ''_'' then is_digit c \<and> underscores_ok c cs
      else underscores_ok c cs)"

definition decimal_value :: "string \<Rightarrow> nat" where
  "decimal_value ds = foldl (\<lambda>a d. 10 * a + d) 0 (List.map_filter digit_of ds)"

definition split_digits :: "string \<Rightarrow> string \<times> string" where
  "split_digits s = (takeWhile is_digit s, dropWhile is_digit s)"

definition parse_sign :: "string \<Rightarrow> bool \<times> string" where
  "parse_sign s =
     (case s of
        [] \<Rightarrow> (False, [])
      | c # r \<Rightarrow>
          if c = CHR ''-'' then (True, r)
          else if c = CHR ''+'' then (False, r)
          else (False, s))"

definition parse_exponent :: "string \<Rightarrow> int option" where
  "parse_exponent s =
     (case s of
        [] \<Rightarrow> Some 0
      | c # r \<Rightarrow>
          if c = CHR ''e'' \<or> c = CHR ''E'' then
            (case parse_sign r of
               (neg, r1) \<Rightarrow>
                 (case split_digits r1 of
                    (ds, r2) \<Rightarrow>
                      if ds = [] \<or> r2 \<noteq> [] then None
                      else Some (if neg then - int (decimal_value ds)
                                 else int (decimal_value ds))))
          else None)"

definition scale10 :: "real \<Rightarrow> int \<Rightarrow> real" where
  "scale10 x e = (if 0 \<le> e then x * 10 ^ nat e else x / 10 ^ nat (- e))"

definition py_float :: "string \<Rightarrow> real option" where
  "py_float v =
     (if \<not> underscores_ok (CHR 0x00) v then None
      else
        (case parse_sign (strip (filter (\<lambda>c. c \<noteq> CHR ''_'') v)) of
           (neg, s1) \<Rightarrow>
             (case split_digits s1 of
                (ip, s2) \<Rightarrow>
                  (case (case s2 of
                           [] \<Rightarrow> ([], [])
                         | c # r \<Rightarrow> if c = CHR ''.'' then split_digits r else ([], s2)) of
                     (fp, s3) \<Rightarrow>
                       if ip = [] \<and> fp = [] then None
                       else
                         (case parse_exponent s3 of
                            None \<Rightarrow> None
                          | Some ex \<Rightarrow>
                              (let m = real (decimal_value ip)
                                       + real (decimal_value fp) / 10 ^ length fp
                               in Some (scale10 (if neg then - m else m) ex)))))))"

definition ascii_lower :: "char \<Rightarrow> char" where
  "ascii_lower c =
     (let n = (of_char c :: nat) in if 65 \<le> n \<and> n \<le> 90 then char_of (n + 32) else c)"

subsection \<open>The values of \<^verbatim>\<open>float\<close>\<close>

datatype pyfloat = Finite real | PosInf | NegInf | NaN

text \<open>
  A literal whose value is at least \<open>2 ^ 1024 - 2 ^ 970\<close> in magnitude (half a unit in
  the last place above the largest double) is read as an infinity.
\<close>

definition double_overflow :: real where
  "double_overflow = 2 ^ 1024 - 2 ^ 970"

definition to_double :: "real \<Rightarrow> pyfloat" where
  "to_double x =
     (if double_overflow \<le> x then PosInf
      else if x \<le> - double_overflow then NegInf
      else Finite x)"

text \<open>
  \<^verbatim>\<open>inf\<close>, \<^verbatim>\<open>infinity\<close> and \<^verbatim>\<open>nan\<close>, in any letter case, with an optional
  sign and with whitespace around them.
\<close>

definition nonfinite_literal :: "string \<Rightarrow> pyfloat option" where
  "nonfinite_literal v =
     (if \<not> underscores_ok (CHR 0x00) v then None
      else
        (case parse_sign (strip v) of
           (neg, s) \<Rightarrow>
             if map ascii_lower s = ''inf'' \<or> map ascii_lower s = ''infinity''
             then Some (if neg then NegInf else PosInf)
             else if map ascii_lower s = ''nan'' then Some NaN
             else None))"

text \<open>\<^verbatim>\<open>float(v)\<close> on an ASCII text; \<open>None\<close> is ValueError.\<close>

definition float_of_text :: "string \<Rightarrow> pyfloat option" where
  "float_of_text v =
     (case nonfinite_literal v of
        Some x \<Rightarrow> Some x
      | None \<Rightarrow> map_option to_double (py_float v))"


text \<open>Addition of floats, and the division of a sum by a positive count.\<close>

fun pf_add :: "pyfloat \<Rightarrow> pyfloat \<Rightarrow> pyfloat" where
  "pf_add (Finite a) (Finite b) = Finite (a + b)"
| "pf_add NaN y = NaN"
| "pf_add x NaN = NaN"
| "pf_add PosInf NegInf = NaN"
| "pf_add NegInf PosInf = NaN"
| "pf_add PosInf y = PosInf"
| "pf_add x PosInf = PosInf"
| "pf_add NegInf y = NegInf"
| "pf_add x NegInf = NegInf"

fun pf_div_count :: "pyfloat \<Rightarrow> nat \<Rightarrow> pyfloat" where
  "pf_div_count (Finite a) n = Finite (a / real n)"
| "pf_div_count x n = x"

subsection \<open>\<^verbatim>\<open>GoogleSheetsManager._calculate_profit\<close>\<close>

text \<open>
  The arguments are dynamically typed: the callers pass cell texts, the text
  \<^verbatim>\<open>"0"\<close> or the integer \<^verbatim>\<open>0\<close>. The calculator is modelled on the real
  numbers: \<^verbatim>\<open>float\<close> is here \<open>py_float\<close>, the finite reading.
  \<^verbatim>\<open>
  hours = self._calculate_hours(start_time, end_time)
  hourly_rate = 220
  revenue_percentage = 0.015
  revenue_val = float(str(revenue).replace(',', '.')) if revenue else 0
  tips_val = float(str(tips).replace(',', '.')) if tips else 0
  profit = (hours * hourly_rate) + tips_val + (revenue_val * revenue_percentage)
  return profit
  \<close>
  and \<^verbatim>\<open>return 0\<close> in the \<^verbatim>\<open>except\<close> branch.
\<close>

datatype pyval = PNone | PStr string | PNum real

definition truthy :: "pyval \<Rightarrow> bool" where
  "truthy v = (case v of PNone \<Rightarrow> False | PStr s \<Rightarrow> s \<noteq> [] | PNum x \<Rightarrow> x \<noteq> 0)"

definition replace_comma :: "string \<Rightarrow> string" where
  "replace_comma s = map (\<lambda>c. if c = CHR '','' then CHR ''.'' else c) s"

text \<open>
  \<^verbatim>\<open>float(str(x).replace(',', '.')) if x else 0\<close>. For a number, \<^verbatim>\<open>str\<close> gives a
  literal without a comma that \<^verbatim>\<open>float\<close> reads back as the same number.
\<close>

definition to_number :: "pyval \<Rightarrow> real option" where
  "to_number x =
     (if truthy x then
        (case x of
           PStr s \<Rightarrow> py_float (replace_comma s)
         | PNum r \<Rightarrow> Some r
         | PNone \<Rightarrow> None)
      else Some 0)"

definition calculate_profit :: "string \<Rightarrow> string \<Rightarrow> pyval \<Rightarrow> pyval \<Rightarrow> real" where
  "calculate_profit start_time end_time revenue tips =
     (let hours = calculate_hours start_time end_time;
          hourly_rate = 220;
          revenue_percentage = 15 / 1000
      in case to_number revenue of
           None \<Rightarrow> 0
         | Some revenue_val \<Rightarrow>
             (case to_number tips of
                None \<Rightarrow> 0
              | Some tips_val \<Rightarrow>
                  (hours * hourly_rate) + tips_val + (revenue_val * revenue_percentage)))"

subsection \<open>The message tiers of \<^verbatim>\<open>process_profit_date\<close> (\<^verbatim>\<open>src/main.py\<close>)\<close>

text \<open>
  \<^verbatim>\<open>
  if profit_float < 4000:            # "Ne rasstraivaysya, kotik ..."
  elif 4000 <= profit_float <= 6000: # "Neplokhaya smena ..."
  else:                              # "Ty prosto superstar ..."
  \<close>
\<close>

datatype tier = Consolation | GoodShift | Superstar

definition encouragement_tier :: "real \<Rightarrow> tier" where
  "encouragement_tier profit_float =
     (if profit_float < 4000 then Consolation
      else if 4000 \<le> profit_float \<and> profit_float \<le> 6000 then GoodShift
      else Superstar)"

subsection \<open>Field labels and \<^verbatim>\<open>str.lower\<close>\<close>

text \<open>
  The editable fields are named by Russian words; a \<open>string\<close> holds their UTF-8
  bytes. \<open>py_lower\<close> is \<^verbatim>\<open>str.lower\<close> on the ASCII letters and on the Cyrillic
  capitals U+0400 to U+042F (lead byte \<^verbatim>\<open>0xD0\<close>); other scripts are left as they
  are.
\<close>

definition nachalo :: string where \<comment> \<open>"start"\<close>
  "nachalo = [CHR 0xD0, CHR 0xBD, CHR 0xD0, CHR 0xB0, CHR 0xD1, CHR 0x87, CHR 0xD0, CHR 0xB0,
              CHR 0xD0, CHR 0xBB, CHR 0xD0, CHR 0xBE]"

definition konets :: string where \<comment> \<open>"end"\<close>
  "konets = [CHR 0xD0, CHR 0xBA, CHR 0xD0, CHR 0xBE, CHR 0xD0, CHR 0xBD, CHR 0xD0, CHR 0xB5,
             CHR 0xD1, CHR 0x86]"

definition vyruchka :: string where \<comment> \<open>"revenue"\<close>
  "vyruchka = [CHR 0xD0, CHR 0xB2, CHR 0xD1, CHR 0x8B, CHR 0xD1, CHR 0x80, CHR 0xD1, CHR 0x83,
               CHR 0xD1, CHR 0x87, CHR 0xD0, CHR 0xBA, CHR 0xD0, CHR 0xB0]"

definition chai :: string where \<comment> \<open>"tea", the tips\<close>
  "chai = [CHR 0xD1, CHR 0x87, CHR 0xD0, CHR 0xB0, CHR 0xD0, CHR 0xB9]"

fun py_lower :: "string \<Rightarrow> string" where
  "py_lower [] = []"
| "py_lower [c] = [ascii_lower c]"
| "py_lower (c1 # c2 # cs) =
     (if c1 = CHR 0xD0 then
        (let n = (of_char c2 :: nat) in
           if 0x90 \<le> n \<and> n \<le> 0x9F then CHR 0xD0 # char_of (n + 0x20) # py_lower cs
           else if 0xA0 \<le> n \<and> n \<le> 0xAF then CHR 0xD1 # char_of (n - 0x20) # py_lower cs
           else if 0x80 \<le> n \<and> n \<le> 0x8F then CHR 0xD1 # char_of (n + 0x10) # py_lower cs
           else c1 # c2 # py_lower cs)
      else ascii_lower c1 # py_lower (c2 # cs))"

section \<open>The SQLite backend (\<^verbatim>\<open>src/database.py\<close>)\<close>

text \<open>
  The table \<^verbatim>\<open>shifts\<close>: \<^verbatim>\<open>date TEXT UNIQUE NOT NULL\<close>, \<^verbatim>\<open>start_time\<close> and
  \<^verbatim>\<open>end_time TEXT NOT NULL\<close>, \<^verbatim>\<open>revenue\<close> and \<^verbatim>\<open>tips REAL DEFAULT 0\<close> (a REAL
  column holds NULL, here \<open>None\<close>, or a double, finite or infinite; a NaN that is
  bound to a statement is stored as NULL). The columns \<^verbatim>\<open>id\<close>, \<^verbatim>\<open>created_at\<close> and
  \<^verbatim>\<open>updated_at\<close> are read by no query of the program and are left out. The stored
  state is the list of rows, oldest insertion first.
\<close>

record shift_row =
  date :: string
  start_time :: string
  end_time :: string
  revenue :: "pyfloat option"
  tips :: "pyfloat option"

type_synonym shifts_table = "shift_row list"

text \<open>
  \<^verbatim>\<open>INSERT OR REPLACE INTO shifts (date, start_time, end_time, updated_at)
  VALUES (?, ?, ?, CURRENT_TIMESTAMP)\<close>.
  On a conflict with the unique \<^verbatim>\<open>date\<close>, SQLite deletes the row in conflict and
  then inserts the new row; the columns that the statement does not name get their
  defaults.
\<close>

definition DatabaseManager_add_shift ::
  "shifts_table \<Rightarrow> string \<Rightarrow> string \<Rightarrow> string \<Rightarrow> bool \<times> shifts_table" where
  "DatabaseManager_add_shift tbl date_msg start end_t =
     (True,
      filter (\<lambda>r. date r \<noteq> date_msg) tbl
      @ [\<lparr>date = date_msg, start_time = start, end_time = end_t,
          revenue = Some (Finite 0), tips = Some (Finite 0)\<rparr>])"

definition field_mapping :: "string \<Rightarrow> string option" where
  "field_mapping k =
     (if k = nachalo then Some ''start_time''
      else if k = konets then Some ''end_time''
      else if k = vyruchka then Some ''revenue''
      else if k = chai then Some ''tips''
      else None)"

text \<open>
  \<^verbatim>\<open>UPDATE shifts SET {db_field} = ? ... WHERE date = ?\<close> on one row. A NaN is
  bound as NULL.
\<close>

definition bind_double :: "pyfloat \<Rightarrow> pyfloat option" where
  "bind_double x = (if x = NaN then None else Some x)"

definition set_numeric :: "string \<Rightarrow> pyfloat \<Rightarrow> shift_row \<Rightarrow> shift_row" where
  "set_numeric db_field x r =
     (if db_field = ''revenue'' then r\<lparr>revenue := bind_double x\<rparr>
      else r\<lparr>tips := bind_double x\<rparr>)"

definition set_text :: "string \<Rightarrow> string \<Rightarrow> shift_row \<Rightarrow> shift_row" where
  "set_text db_field v r =
     (if db_field = ''start_time'' then r\<lparr>start_time := v\<rparr> else r\<lparr>end_time := v\<rparr>)"

definition update_where_date ::
  "(shift_row \<Rightarrow> shift_row) \<Rightarrow> string \<Rightarrow> shifts_table \<Rightarrow> shifts_table" where
  "update_where_date f date_msg tbl = map (\<lambda>r. if date r = date_msg then f r else r) tbl"

definition rowcount :: "string \<Rightarrow> shifts_table \<Rightarrow> nat" where
  "rowcount date_msg tbl = length (filter (\<lambda>r. date r = date_msg) tbl)"

text \<open>
  \<^verbatim>\<open>DatabaseManager.update_value\<close>: an unknown field returns False; for
  \<^verbatim>\<open>revenue\<close> and \<^verbatim>\<open>tips\<close>, \<^verbatim>\<open>float(value)\<close> raising ValueError returns False
  before any statement is executed; \<^verbatim>\<open>cursor.rowcount == 0\<close> returns False.
\<close>

definition DatabaseManager_update_value ::
  "shifts_table \<Rightarrow> string \<Rightarrow> string \<Rightarrow> string \<Rightarrow> bool \<times> shifts_table" where
  "DatabaseManager_update_value tbl date_msg field v =
     (case field_mapping (py_lower field) of
        None \<Rightarrow> (False, tbl)
      | Some db_field \<Rightarrow>
          if db_field \<in> {''revenue'', ''tips''} then
            (case float_of_text v of
               None \<Rightarrow> (False, tbl)
             | Some numeric_value \<Rightarrow>
                 if rowcount date_msg tbl = 0 then (False, tbl)
                 else (True, update_where_date (set_numeric db_field numeric_value) date_msg tbl))
          else
            if rowcount date_msg tbl = 0 then (False, tbl)
            else (True, update_where_date (set_text db_field v) date_msg tbl))"

text \<open>\<^verbatim>\<open>x or 0\<close> on a column value: NULL and 0.0 both give 0.\<close>

definition or_zero :: "pyfloat option \<Rightarrow> pyfloat" where
  "or_zero x = (case x of None \<Rightarrow> Finite 0 | Some v \<Rightarrow> v)"

text \<open>
  \<^verbatim>\<open>DatabaseManager.get_profit\<close>:
  \<^verbatim>\<open>
  SELECT revenue, tips FROM shifts WHERE date = ?
  result = cursor.fetchone()
  if not result: return None
  revenue, tips = result
  profit = (revenue or 0) + (tips or 0)
  return str(profit)
  \<close>
  The model returns the number that the returned text denotes.
\<close>

definition DatabaseManager_get_profit :: "shifts_table \<Rightarrow> string \<Rightarrow> pyfloat option" where
  "DatabaseManager_get_profit tbl date_msg =
     (case filter (\<lambda>r. date r = date_msg) tbl of
        [] \<Rightarrow> None
      | r # others \<Rightarrow> Some (pf_add (or_zero (revenue r)) (or_zero (tips r))))"


text \<open>
  \<^verbatim>\<open>WHERE date BETWEEN ? AND ?\<close> compares the TEXT column with the two parameters
  by SQLite's BINARY collation: byte by byte, a proper prefix first. That is the order
  of \<open>string\<close> here.
\<close>

definition between_dates :: "string \<Rightarrow> string \<Rightarrow> shift_row \<Rightarrow> bool" where
  "between_dates start_date end_date r = (start_date \<le> date r \<and> date r \<le> end_date)"

text \<open>The dictionary built for each row by \<^verbatim>\<open>get_shifts_in_period\<close>.\<close>

record shift =
  shift_date :: string
  shift_start :: string
  shift_end :: string
  shift_revenue :: pyfloat
  shift_tips :: pyfloat

definition shift_of_row :: "shift_row \<Rightarrow> shift" where
  "shift_of_row r =
     \<lparr>shift_date = date r, shift_start = start_time r, shift_end = end_time r,
      shift_revenue = or_zero (revenue r), shift_tips = or_zero (tips r)\<rparr>"

text \<open>
  \<^verbatim>\<open>SELECT date, start_time, end_time, revenue, tips FROM shifts
  WHERE date BETWEEN ? AND ? ORDER BY date\<close>
\<close>

definition get_shifts_in_period :: "shifts_table \<Rightarrow> string \<Rightarrow> string \<Rightarrow> shift list" where
  "get_shifts_in_period tbl start_date end_date =
     map shift_of_row (sort_key date (filter (between_dates start_date end_date) tbl))"

text \<open>
  SQL aggregates skip NULL, and over no value at all they are NULL. \<^verbatim>\<open>SUM\<close> adds
  the doubles up from 0.0, \<^verbatim>\<open>AVG\<close> divides that sum by the number of values; a
  result that is NaN is returned as NULL.
\<close>

definition sql_result :: "pyfloat \<Rightarrow> pyfloat option" where
  "sql_result x = (if x = NaN then None else Some x)"

definition sql_sum :: "pyfloat option list \<Rightarrow> pyfloat option" where
  "sql_sum vs =
     (case List.map_filter id vs of
        [] \<Rightarrow> None
      | x # xs \<Rightarrow> sql_result (foldl pf_add (Finite 0) (x # xs)))"

definition sql_avg :: "pyfloat option list \<Rightarrow> pyfloat option" where
  "sql_avg vs =
     (case List.map_filter id vs of
        [] \<Rightarrow> None
      | x # xs \<Rightarrow>
          sql_result (pf_div_count (foldl pf_add (Finite 0) (x # xs)) (length (x # xs))))"

record statistics =
  shift_count :: nat
  total_revenue :: pyfloat
  total_tips :: pyfloat
  total_profit :: pyfloat
  avg_revenue :: pyfloat
  avg_tips :: pyfloat
  avg_profit :: pyfloat

text \<open>
  \<^verbatim>\<open>DatabaseManager.get_statistics\<close>:
  \<^verbatim>\<open>
  SELECT COUNT(*), SUM(revenue), SUM(tips), AVG(revenue), AVG(tips)
  FROM shifts WHERE date BETWEEN ? AND ?
  result = cursor.fetchone()
  if not result or not result[0]: return None
  return {'shift_count': result[0],
          'total_revenue': result[1] or 0, 'total_tips': result[2] or 0,
          'total_profit': (result[1] or 0) + (result[2] or 0),
          'avg_revenue': result[3] or 0, 'avg_tips': result[4] or 0,
          'avg_profit': (result[3] or 0) + (result[4] or 0)}
  \<close>
\<close>

definition get_statistics :: "shifts_table \<Rightarrow> string \<Rightarrow> string \<Rightarrow> statistics option" where
  "get_statistics tbl start_date end_date =
     (let rows = filter (between_dates start_date end_date) tbl;
          result0 = length rows;
          result1 = sql_sum (map revenue rows);
          result2 = sql_sum (map tips rows);
          result3 = sql_avg (map revenue rows);
          result4 = sql_avg (map tips rows)
      in if result0 = 0 then None
         else Some \<lparr>shift_count = result0,
                    total_revenue = or_zero result1,
                    total_tips = or_zero result2,
                    total_profit = pf_add (or_zero result1) (or_zero result2),
                    avg_revenue = or_zero result3,
                    avg_tips = or_zero result4,
                    avg_profit = pf_add (or_zero result3) (or_zero result4)\<rparr>)"

section \<open>The spreadsheet backend (\<^verbatim>\<open>src/sheet.py\<close>)\<close>

subsection \<open>\<^verbatim>\<open>datetime.strptime(s, "%d.%m.%Y").date().strftime("%d.%m.%Y")\<close>\<close>

text \<open>
  \<^verbatim>\<open>%d\<close>: \<^verbatim>\<open>3[0-1]|[1-2]\d|0[1-9]|[1-9]| [1-9]\<close>; \<^verbatim>\<open>%m\<close>:
  \<^verbatim>\<open>1[0-2]|0[1-9]|[1-9]\<close>; \<^verbatim>\<open>%Y\<close>: \<^verbatim>\<open>\d\d\d\d\<close>.
\<close>

definition day_m :: "nat matcher" where
  "day_m s =
     two_digits (\<lambda>a. a = 3) (\<lambda>b. b \<le> 1) s
     @ two_digits (\<lambda>a. 1 \<le> a \<and> a \<le> 2) any_digit s
     @ two_digits (\<lambda>a. a = 0) (\<lambda>b. 1 \<le> b) s
     @ one_digit (\<lambda>a. 1 \<le> a) s
     @ map (\<lambda>((u, a), r). (a, r)) (then_m (literal CHR '' '') (one_digit (\<lambda>a. 1 \<le> a)) s)"

definition month_m :: "nat matcher" where
  "month_m s =
     two_digits (\<lambda>a. a = 1) (\<lambda>b. b \<le> 2) s
     @ two_digits (\<lambda>a. a = 0) (\<lambda>b. 1 \<le> b) s
     @ one_digit (\<lambda>a. 1 \<le> a) s"

definition year_m :: "nat matcher" where
  "year_m s =
     map (\<lambda>((a, b), r). (100 * a + b, r))
         (then_m (two_digits any_digit any_digit) (two_digits any_digit any_digit) s)"

definition is_leap :: "nat \<Rightarrow> bool" where
  "is_leap y = (y mod 4 = 0 \<and> (y mod 100 \<noteq> 0 \<or> y mod 400 = 0))"

definition days_in_month :: "nat \<Rightarrow> nat \<Rightarrow> nat" where
  "days_in_month y m =
     (if m = 2 then (if is_leap y then 29 else 28)
      else if m \<in> {4, 6, 9, 11} then 30
      else 31)"

definition digit_char :: "nat \<Rightarrow> char" where
  "digit_char n = ''0123456789'' ! (n mod 10)"

definition pad2 :: "nat \<Rightarrow> string" where
  "pad2 n = [digit_char (n div 10), digit_char (n mod 10)]"

text \<open>
  \<^verbatim>\<open>%Y\<close> of \<^verbatim>\<open>strftime\<close> as glibc prints it under CPython up to 3.12: no leading
  zeros (CPython from 3.13 pads to four digits; the two agree from the year 1000 on).
\<close>

definition year_text :: "nat \<Rightarrow> string" where
  "year_text y =
     map digit_char
       (dropWhile (\<lambda>d. d = 0) [y div 1000, (y div 100) mod 10, (y div 10) mod 10, y mod 10])"

text \<open>
  \<^verbatim>\<open>datetime.strptime(date_msg, "%d.%m.%Y").date()\<close>: the year, the month and the
  day. ValueError (here \<open>None\<close>) when the text does not match, when unconverted data
  remain, and when \<^verbatim>\<open>datetime.date\<close> rejects the year 0 or a day past the end of the
  month.
\<close>

definition strptime_dmY :: "string \<Rightarrow> (nat \<times> nat \<times> nat) option" where
  "strptime_dmY date_msg =
     (case then_m day_m (then_m (literal CHR ''.'')
             (then_m month_m (then_m (literal CHR ''.'') year_m))) date_msg of
        [] \<Rightarrow> None
      | ((d, (u1, (m, (u2, y)))), rest) # alternatives \<Rightarrow>
          if rest \<noteq> [] then None
          else if y < 1 \<or> days_in_month y m < d then None
          else Some (y, m, d))"

definition strftime_dmY :: "nat \<times> nat \<times> nat \<Rightarrow> string" where
  "strftime_dmY t = (case t of (y, m, d) \<Rightarrow> pad2 d @ ''.'' @ pad2 m @ ''.'' @ year_text y)"

definition format_date :: "string \<Rightarrow> string option" where
  "format_date date_msg = map_option strftime_dmY (strptime_dmY date_msg)"

subsection \<open>The worksheet\<close>

text \<open>
  The worksheet is the list of its rows, the header row first (row 1); a row is the
  list of its cell texts from column A on, and a cell beyond the end of a row, or of
  the sheet, is empty. A cell keeps the text written to it. The program also writes
  numbers (the profit); what \<^verbatim>\<open>cell.value\<close> returns for a number cell is decided by
  the spreadsheet's locale, so the operations take that rendering as the parameter
  \<open>render\<close>.
\<close>

record sheets =
  initialized :: bool
  worksheet :: "string list list"

text \<open>
  \<^verbatim>\<open>worksheet.find(query)\<close>: the first cell, row by row, whose value is the
  query; the program uses only its row number.
\<close>

definition find_row :: "string list list \<Rightarrow> string \<Rightarrow> nat option" where
  "find_row ws query =
     (case filter (\<lambda>i. query \<in> set (ws ! i)) [0..<length ws] of
        [] \<Rightarrow> None
      | i # others \<Rightarrow> Some (Suc i))"

definition cell_value :: "string list list \<Rightarrow> nat \<Rightarrow> nat \<Rightarrow> string" where
  "cell_value ws row col =
     (if 1 \<le> row \<and> row \<le> length ws \<and> 1 \<le> col \<and> col \<le> length (ws ! (row - 1))
      then ws ! (row - 1) ! (col - 1)
      else [])"

definition update_cell :: "string list list \<Rightarrow> nat \<Rightarrow> nat \<Rightarrow> string \<Rightarrow> string list list" where
  "update_cell ws row col v =
     (let ws1 = ws @ replicate (row - length ws) [];
          r = ws1 ! (row - 1);
          r1 = r @ replicate (col - length r) []
      in ws1[row - 1 := r1[col - 1 := v]])"

text \<open>\<^verbatim>\<open>c.value if c.value else default\<close>\<close>

definition value_or :: "string \<Rightarrow> string \<Rightarrow> string" where
  "value_or v dflt = (if v \<noteq> [] then v else dflt)"

text \<open>
  \<^verbatim>\<open>GoogleSheetsManager.add_shift\<close>. An existing record gets the new times in
  columns B and C and the recomputed profit in column G; a new record is appended with
  six values, the profit in column F.
\<close>

definition GoogleSheetsManager_add_shift ::
  "(real \<Rightarrow> string) \<Rightarrow> sheets \<Rightarrow> string \<Rightarrow> string \<Rightarrow> string \<Rightarrow> bool \<times> sheets" where
  "GoogleSheetsManager_add_shift render st date_msg start end_t =
     (if \<not> initialized st then (False, st)
      else
        (case format_date date_msg of
           None \<Rightarrow> (False, st)
         | Some formatted_date \<Rightarrow>
             if strptime_HM start = None \<or> strptime_HM end_t = None then (False, st)
             else
               (case find_row (worksheet st) formatted_date of
                  Some row \<Rightarrow>
                    (let ws1 = update_cell (update_cell (worksheet st) row 2 start) row 3 end_t;
                         revenue_v = value_or (cell_value ws1 row 4) ''0'';
                         tips_v = value_or (cell_value ws1 row 5) ''0'';
                         profit = calculate_profit start end_t (PStr revenue_v) (PStr tips_v)
                     in (True, st\<lparr>worksheet := update_cell ws1 row 7 (render profit)\<rparr>))
                | None \<Rightarrow>
                    (let profit = calculate_profit start end_t (PNum 0) (PNum 0);
                         new_row = [formatted_date, start, end_t, [], [], render profit]
                     in (True, st\<lparr>worksheet := worksheet st @ [new_row]\<rparr>)))))"

text \<open>
  \<^verbatim>\<open>GoogleSheetsManager.update_value\<close> and \<^verbatim>\<open>GoogleSheetsManager.get_profit\<close> are
  not embedded: their text is not Python. The column table of \<^verbatim>\<open>update_value\<close>
  has an entry with a bare name for its value and an entry without a colon (lines 185
  and 186 of \<^verbatim>\<open>src/sheet.py\<close>), and \<^verbatim>\<open>get_profit\<close> writes a string literal with
  the prefix \<^verbatim>\<open>g\<close> (line 266).
\<close>

section \<open>Notions used to state the properties\<close>


text \<open>
  The spec's range of dates: the day \<open>d\<close> lies in the inclusive range from
  \<open>start_date\<close> to \<open>end_date\<close>, as calendar days. The three texts are read as
  \<^verbatim>\<open>src/main.py\<close> reads the dates of a period, by \<^verbatim>\<open>strptime\<close> with
  \<^verbatim>\<open>%d.%m.%Y\<close>.
\<close>

definition calendar_le :: "nat \<times> nat \<times> nat \<Rightarrow> nat \<times> nat \<times> nat \<Rightarrow> bool" where
  "calendar_le a b =
     (case a of (y1, m1, d1) \<Rightarrow>
        (case b of (y2, m2, d2) \<Rightarrow>
           y1 < y2 \<or> (y1 = y2 \<and> (m1 < m2 \<or> (m1 = m2 \<and> d1 \<le> d2)))))"

definition in_calendar_range :: "string \<Rightarrow> string \<Rightarrow> string \<Rightarrow> bool" where
  "in_calendar_range start_date end_date d =
     (case strptime_dmY start_date of
        None \<Rightarrow> False
      | Some a \<Rightarrow>
          (case strptime_dmY end_date of
             None \<Rightarrow> False
           | Some b \<Rightarrow>
               (case strptime_dmY d of
                  None \<Rightarrow> False
                | Some x \<Rightarrow> calendar_le a x \<and> calendar_le x b)))"

text \<open>
  The spec's scenario: the shift of 01.03.2024 from 22:00 to 06:00 with revenue 1000
  and tips 500, in each backend; and three more tables.
\<close>

definition scenario_table :: shifts_table where
  "scenario_table =
     [\<lparr>date = ''01.03.2024'', start_time = ''22:00'', end_time = ''06:00'',
       revenue = Some (Finite 1000), tips = Some (Finite 500)\<rparr>]"

definition scenario_sheet :: sheets where
  "scenario_sheet =
     \<lparr>initialized = True,
      worksheet = [[''Date'', ''Start'', ''End'', ''Revenue'', ''Tips'', ''Hours'', ''Profit''],
                   [''01.03.2024'', ''22:00'', ''06:00'', ''1000'', ''500'']]\<rparr>"

definition two_months_table :: shifts_table where
  "two_months_table =
     [\<lparr>date = ''01.03.2024'', start_time = ''22:00'', end_time = ''06:00'',
       revenue = Some (Finite 1000), tips = Some (Finite 100)\<rparr>,
      \<lparr>date = ''02.01.2024'', start_time = ''10:00'', end_time = ''18:00'',
       revenue = Some (Finite 2000), tips = Some (Finite 200)\<rparr>]"

definition mid_january_table :: shifts_table where
  "mid_january_table =
     [\<lparr>date = ''15.01.2024'', start_time = ''10:00'', end_time = ''18:00'',
       revenue = Some (Finite 1000), tips = Some (Finite 100)\<rparr>]"

definition january_table :: shifts_table where
  "january_table =
     [\<lparr>date = ''10.01.2024'', start_time = ''10:00'', end_time = ''18:00'',
       revenue = Some (Finite 1000), tips = Some (Finite 100)\<rparr>,
      \<lparr>date = ''20.01.2024'', start_time = ''10:00'', end_time = ''18:00'',
       revenue = Some (Finite 2000), tips = Some (Finite 200)\<rparr>]"

text \<open>A rendering of number cells, for the examples: two known values, else a mark.\<close>

definition example_render :: "real \<Rightarrow> string" where
  "example_render x = (if x = 2275 then ''2275'' else if x = 2495 then ''2495'' else ''#'')"

section \<open>Properties of the profit calculator\<close>

lemmas matcher_defs =
  then_m_def hour_m_def minute_m_def two_digits_def one_digit_def digit_of_def
  literal_def any_digit_def

lemmas float_defs =
  py_float_def parse_sign_def split_digits_def parse_exponent_def decimal_value_def
  strip_def is_space_def is_digit_def digit_of_def scale10_def List.map_filter_def

subsection \<open>What \<^verbatim>\<open>strptime\<close> can return\<close>

lemma one_digit_range:
  "(a, r) \<in> set (one_digit ok s) \<Longrightarrow> a \<le> 9 \<and> ok a"
  by (auto simp: one_digit_def digit_of_def Let_def split: list.splits option.splits if_splits)

lemma two_digits_range:
  "(n, r) \<in> set (two_digits ok1 ok2 s) \<Longrightarrow>
     \<exists>a b. n = 10 * a + b \<and> a \<le> 9 \<and> b \<le> 9 \<and> ok1 a \<and> ok2 b"
  unfolding two_digits_def
  by (auto dest!: one_digit_range)

lemma hour_m_range: "(h, r) \<in> set (hour_m s) \<Longrightarrow> h < 24"
  unfolding hour_m_def
  by (auto dest!: two_digits_range one_digit_range)

lemma minute_m_range: "(m, r) \<in> set (minute_m s) \<Longrightarrow> m < 60"
  unfolding minute_m_def
  by (auto dest!: two_digits_range one_digit_range)

lemma strptime_HM_range:
  assumes "strptime_HM s = Some t"
  shows "day t = 0 \<and> hour t < 24 \<and> minute t < 60"
proof -
  from assms obtain h u m rest alts where
    eq: "then_m hour_m (then_m (literal CHR '':'') minute_m) s = ((h, (u, m)), rest) # alts"
    and t: "t = \<lparr>day = 0, hour = h, minute = m\<rparr>"
    by (auto simp: strptime_HM_def split: list.splits if_splits)
  have "((h, (u, m)), rest) \<in> set (then_m hour_m (then_m (literal CHR '':'') minute_m) s)"
    by (simp add: eq)
  then obtain r1 r2 where "(h, r1) \<in> set (hour_m s)" and "(m, rest) \<in> set (minute_m r2)"
    by (auto simp: then_m_def)
  then have "h < 24" and "m < 60"
    by (auto dest: hour_m_range minute_m_range)
  with t show ?thesis by simp
qed

lemma clock_hours_range:
  assumes "strptime_HM s = Some a"
  shows "0 \<le> clock_hours a \<and> clock_hours a < 24"
proof -
  from assms have "hour a < 24" "minute a < 60"
    by (auto dest: strptime_HM_range)
  then have "real (hour a) \<le> 23" "real (minute a) < 60"
    by simp_all
  then show ?thesis
    by (simp add: clock_hours_def)
qed

subsection \<open>Hours\<close>

lemma calculate_hours_valid:
  assumes "strptime_HM s = Some a" and "strptime_HM e = Some b"
  shows "calculate_hours s e =
           (if clock_hours b < clock_hours a then clock_hours b + 24 - clock_hours a
            else clock_hours b - clock_hours a)"
proof -
  from assms have "day a = 0" "day b = 0"
    by (auto dest: strptime_HM_range)
  then show ?thesis
    using assms
    by (simp add: calculate_hours_def datetime_less_def seconds_of_def add_days_def
        clock_hours_def Let_def field_simps)
qed

lemma calculate_profit_numbers:
  assumes "to_number rv = Some r" and "to_number tv = Some t"
  shows "calculate_profit s e rv tv = calculate_hours s e * 220 + t + r * (15 / 1000)"
  using assms by (simp add: calculate_profit_def)

text \<open>
  Claim C4. For all times \<open>start_t\<close> and \<open>end_t\<close> that \<^verbatim>\<open>strptime\<close> accepts in
  the format \<^verbatim>\<open>%H:%M\<close>: when the end is not before the start, the hours are the end
  minus the start, in fractional hours; when the end is before the start, they are the
  end plus 24 hours, minus the start.
\<close>

theorem calculate_hours_overnight_rule:
  assumes "strptime_HM start_t = Some a" and "strptime_HM end_t = Some b"
  shows "(clock_hours a \<le> clock_hours b \<longrightarrow>
            calculate_hours start_t end_t = clock_hours b - clock_hours a)
       \<and> (clock_hours b < clock_hours a \<longrightarrow>
            calculate_hours start_t end_t = (clock_hours b + 24) - clock_hours a)"
  using calculate_hours_valid [OF assms] by simp

theorem calculate_hours_overnight_rule_witness:
  "strptime_HM ''22:00'' = Some \<lparr>day = 0, hour = 22, minute = 0\<rparr>
   \<and> strptime_HM ''06:30'' = Some \<lparr>day = 0, hour = 6, minute = 30\<rparr>
   \<and> calculate_hours ''22:00'' ''06:30'' = 17 / 2
   \<and> calculate_hours ''06:30'' ''22:00'' = 31 / 2"
proof -
  have a: "strptime_HM ''22:00'' = Some \<lparr>day = 0, hour = 22, minute = 0\<rparr>"
    by (simp add: strptime_HM_def matcher_defs)
  have b: "strptime_HM ''06:30'' = Some \<lparr>day = 0, hour = 6, minute = 30\<rparr>"
    by (simp add: strptime_HM_def matcher_defs)
  show ?thesis
    using a b calculate_hours_overnight_rule [OF a b] calculate_hours_overnight_rule [OF b a]
    by (simp add: clock_hours_def)
qed

text \<open>
  Claim C10. For all accepted times the hours lie in the half-open interval from 0 to
  24, so no shift of 24 hours can be represented; a shift that starts and ends at the
  same time of day has 0 hours, and its profit is the tips plus 1.5 percent of the
  revenue alone.
\<close>

theorem calculate_hours_range:
  assumes "strptime_HM start_t = Some a" and "strptime_HM end_t = Some b"
  shows "0 \<le> calculate_hours start_t end_t \<and> calculate_hours start_t end_t < 24
       \<and> calculate_hours start_t start_t = 0
       \<and> (a = b \<longrightarrow> calculate_hours start_t end_t = 0)
       \<and> (to_number rv = Some r \<longrightarrow> to_number tv = Some t \<longrightarrow>
            calculate_profit start_t start_t rv tv = t + r * (15 / 1000))"
proof -
  note ra = clock_hours_range [OF assms(1)] and rb = clock_hours_range [OF assms(2)]
  have same: "calculate_hours start_t start_t = 0"
    using calculate_hours_valid [OF assms(1) assms(1)] by simp
  have "0 \<le> calculate_hours start_t end_t \<and> calculate_hours start_t end_t < 24"
    using calculate_hours_valid [OF assms] ra rb by (simp split: if_splits)
  moreover have "a = b \<longrightarrow> calculate_hours start_t end_t = 0"
    using calculate_hours_valid [OF assms] by simp
  moreover have "to_number rv = Some r \<longrightarrow> to_number tv = Some t \<longrightarrow>
      calculate_profit start_t start_t rv tv = t + r * (15 / 1000)"
    using same by (simp add: calculate_profit_numbers)
  ultimately show ?thesis using same by simp
qed

theorem calculate_hours_range_witness:
  "strptime_HM ''00:00'' = Some \<lparr>day = 0, hour = 0, minute = 0\<rparr>
   \<and> strptime_HM ''23:59'' = Some \<lparr>day = 0, hour = 23, minute = 59\<rparr>
   \<and> calculate_hours ''00:00'' ''23:59'' < 24
   \<and> calculate_hours ''00:00'' ''00:00'' = 0
   \<and> calculate_profit ''00:00'' ''00:00'' (PStr ''1000'') (PStr ''500'') = 515"
proof -
  have a: "strptime_HM ''00:00'' = Some \<lparr>day = 0, hour = 0, minute = 0\<rparr>"
    by (simp add: strptime_HM_def matcher_defs)
  have b: "strptime_HM ''23:59'' = Some \<lparr>day = 0, hour = 23, minute = 59\<rparr>"
    by (simp add: strptime_HM_def matcher_defs)
  have r: "to_number (PStr ''1000'') = Some 1000"
    by (simp add: to_number_def truthy_def replace_comma_def float_defs)
  have t: "to_number (PStr ''500'') = Some 500"
    by (simp add: to_number_def truthy_def replace_comma_def float_defs)
  show ?thesis
    using a b r t
      calculate_hours_range [OF a b, of "PStr ''1000''" 1000 "PStr ''500''" 500]
    by simp
qed

subsection \<open>Profit\<close>

lemma replace_comma_idem: "replace_comma (replace_comma v) = replace_comma v"
  by (simp add: replace_comma_def)

lemma to_number_replace_comma: "to_number (PStr (replace_comma v)) = to_number (PStr v)"
  by (simp add: to_number_def truthy_def replace_comma_idem) (simp add: replace_comma_def)

text \<open>
  Claim C5. Whenever the revenue and the tips are read as numbers \<open>r\<close> and \<open>t\<close>,
  the profit is the hours times 220, plus \<open>t\<close>, plus \<open>r\<close> times 0.015. A comma in a
  text is read as the decimal point (the text with the commas replaced is read as the
  same number); the absent value, the empty text and 0 are read as 0; and the shift
  from 22:00 to 06:00 with revenue 1000 and tips 500 has the profit 2275.
\<close>

theorem calculate_profit_formula:
  "(to_number rv = Some r \<longrightarrow> to_number tv = Some t \<longrightarrow>
      calculate_profit start_t end_t rv tv
        = calculate_hours start_t end_t * 220 + t + r * (15 / 1000))
   \<and> to_number (PStr (replace_comma v)) = to_number (PStr v)
   \<and> to_number (PStr ''12,5'') = Some (25 / 2)
   \<and> to_number PNone = Some 0 \<and> to_number (PStr []) = Some 0 \<and> to_number (PNum 0) = Some 0
   \<and> calculate_profit ''22:00'' ''06:00'' (PStr ''1000'') (PStr ''500'') = 2275"
proof -
  have "to_number (PStr ''12,5'') = Some (25 / 2)"
    by (simp add: to_number_def truthy_def replace_comma_def float_defs)
  moreover have "to_number PNone = Some 0 \<and> to_number (PStr []) = Some 0
      \<and> to_number (PNum 0) = Some 0"
    by (simp add: to_number_def truthy_def)
  moreover have "calculate_hours ''22:00'' ''06:00'' = 8"
    by (simp add: calculate_hours_def strptime_HM_def matcher_defs datetime_less_def
        seconds_of_def add_days_def)
  moreover have "to_number (PStr ''1000'') = Some 1000" "to_number (PStr ''500'') = Some 500"
    by (simp_all add: to_number_def truthy_def replace_comma_def float_defs)
  ultimately show ?thesis
    by (simp add: calculate_profit_numbers to_number_replace_comma)
qed

theorem calculate_profit_formula_witness:
  "to_number (PStr ''2000,5'') = Some (4001 / 2) \<and> to_number (PStr []) = Some 0
   \<and> calculate_profit ''09:00'' ''17:30'' (PStr ''2000,5'') (PStr [])
       = (17 / 2) * 220 + 0 + (4001 / 2) * (15 / 1000)"
proof -
  have r: "to_number (PStr ''2000,5'') = Some (4001 / 2)"
    by (simp add: to_number_def truthy_def replace_comma_def float_defs)
  have t: "to_number (PStr []) = Some 0"
    by (simp add: to_number_def truthy_def)
  have h: "calculate_hours ''09:00'' ''17:30'' = 17 / 2"
    by (simp add: calculate_hours_def strptime_HM_def matcher_defs datetime_less_def
        seconds_of_def add_days_def)
  show ?thesis
    using r t h
      calculate_profit_formula [of "PStr ''2000,5''" "4001 / 2" "PStr []" 0 "''09:00''" "''17:30''"]
    by simp
qed

text \<open>
  Claim C8. With the times fixed, the profit changes by the change of the tips, and by
  0.015 times the change of the revenue (it is a linear function of each, with slopes
  1 and 0.015); and with the revenue and the tips fixed, more hours never give less
  profit.
\<close>

theorem calculate_profit_linear_monotone:
  assumes "to_number rv = Some r" and "to_number rv' = Some r'"
    and "to_number tv = Some t" and "to_number tv' = Some t'"
  shows "calculate_profit start_t end_t rv tv' - calculate_profit start_t end_t rv tv = t' - t
       \<and> calculate_profit start_t end_t rv' tv - calculate_profit start_t end_t rv tv
           = (15 / 1000) * (r' - r)
       \<and> (calculate_hours start_t end_t \<le> calculate_hours start_t' end_t' \<longrightarrow>
            calculate_profit start_t end_t rv tv \<le> calculate_profit start_t' end_t' rv tv)"
  using assms by (simp add: calculate_profit_numbers algebra_simps)

theorem calculate_profit_linear_monotone_witness:
  "calculate_profit ''10:00'' ''18:00'' (PNum 1000) (PNum 700)
     - calculate_profit ''10:00'' ''18:00'' (PNum 1000) (PNum 500) = 200
   \<and> calculate_profit ''10:00'' ''18:00'' (PNum 3000) (PNum 500)
     - calculate_profit ''10:00'' ''18:00'' (PNum 1000) (PNum 500) = 30
   \<and> calculate_hours ''10:00'' ''18:00'' \<le> calculate_hours ''10:00'' ''19:00''
   \<and> calculate_profit ''10:00'' ''18:00'' (PNum 1000) (PNum 500)
       \<le> calculate_profit ''10:00'' ''19:00'' (PNum 1000) (PNum 500)"
proof -
  have n: "to_number (PNum 1000) = Some 1000" "to_number (PNum 3000) = Some 3000"
    "to_number (PNum 500) = Some 500" "to_number (PNum 700) = Some 700"
    by (simp_all add: to_number_def truthy_def)
  have h: "calculate_hours ''10:00'' ''18:00'' = 8" "calculate_hours ''10:00'' ''19:00'' = 9"
    by (simp_all add: calculate_hours_def strptime_HM_def matcher_defs datetime_less_def
        seconds_of_def add_days_def)
  show ?thesis
    using h calculate_profit_linear_monotone [OF n(1) n(2) n(3) n(4),
        of "''10:00''" "''18:00''" "''10:00''" "''19:00''"]
    by simp
qed

subsection \<open>The encouragement tiers\<close>

text \<open>
  Claim C9. The first message is chosen exactly for a profit below 4000, the second
  exactly for a profit from 4000 to 6000, both bounds included, and the third exactly
  for a profit above 6000; the three conditions exclude each other and cover every
  number, so every profit has exactly one tier.
\<close>

theorem encouragement_tier_thresholds:
  "(encouragement_tier p = Consolation) = (p < 4000)
   \<and> (encouragement_tier p = GoodShift) = (4000 \<le> p \<and> p \<le> 6000)
   \<and> (encouragement_tier p = Superstar) = (6000 < p)"
  by (auto simp: encouragement_tier_def)

theorem encouragement_tier_thresholds_witness:
  "encouragement_tier 3999.99 = Consolation \<and> encouragement_tier 4000 = GoodShift
   \<and> encouragement_tier 6000 = GoodShift \<and> encouragement_tier 6000.01 = Superstar"
  using encouragement_tier_thresholds [of "3999.99"] encouragement_tier_thresholds [of 4000]
    encouragement_tier_thresholds [of 6000] encouragement_tier_thresholds [of "6000.01"]
  by simp


section \<open>Properties of the storage backends\<close>

subsection \<open>Evaluating the scenario\<close>

lemmas date_defs =
  format_date_def strptime_dmY_def strftime_dmY_def day_m_def month_m_def year_m_def
  days_in_month_def is_leap_def pad2_def year_text_def digit_char_def

lemma format_date_scenario:
  "format_date ''01.03.2024'' = Some ''01.03.2024''"
  by (simp add: date_defs matcher_defs)

lemma find_row_scenario:
  "find_row (worksheet scenario_sheet) ''01.03.2024'' = Some 2"
  by (simp add: find_row_def scenario_sheet_def upt_rec)

lemma calculate_hours_examples:
  "calculate_hours ''22:00'' ''06:00'' = 8"
  "calculate_hours ''21:00'' ''06:00'' = 9"
  by (simp_all add: calculate_hours_def strptime_HM_def matcher_defs datetime_less_def
      seconds_of_def add_days_def)

lemma to_number_examples:
  "to_number (PStr ''1000'') = Some 1000"
  "to_number (PStr ''500'') = Some 500"
  by (simp_all add: to_number_def truthy_def replace_comma_def float_defs)

lemma calculate_profit_examples:
  "calculate_profit ''22:00'' ''06:00'' (PStr ''1000'') (PStr ''500'') = 2275"
  "calculate_profit ''21:00'' ''06:00'' (PStr ''1000'') (PStr ''500'') = 2495"
  by (simp_all add: calculate_profit_numbers [OF to_number_examples] calculate_hours_examples)

lemma py_lower_labels:
  "py_lower vyruchka = vyruchka" "py_lower chai = chai"
  by (simp_all add: vyruchka_def chai_def ascii_lower_def)

lemma field_mapping_labels:
  "field_mapping vyruchka = Some ''revenue''" "field_mapping chai = Some ''tips''"
  by (simp_all add: field_mapping_def vyruchka_def chai_def nachalo_def konets_def)

lemma py_float_examples:
  "py_float ''1000'' = Some 1000" "py_float ''500'' = Some 500" "py_float ''-5'' = Some (- 5)"
  "py_float ''abc'' = None" "py_float ''700'' = Some 700" "py_float ''nan'' = None"
  "py_float ''inf'' = None"
  by (simp_all add: float_defs)

lemma nonfinite_literal_examples:
  "nonfinite_literal ''1000'' = None" "nonfinite_literal ''500'' = None"
  "nonfinite_literal ''-5'' = None" "nonfinite_literal ''abc'' = None"
  "nonfinite_literal ''700'' = None" "nonfinite_literal ''nan'' = Some NaN"
  "nonfinite_literal ''inf'' = Some PosInf"
  by (simp_all add: nonfinite_literal_def parse_sign_def strip_def is_space_def
      ascii_lower_def is_digit_def digit_of_def)

lemma double_overflow_large: "1000000 < double_overflow"
  by (simp add: double_overflow_def)

lemma to_double_small: "\<bar>x\<bar> \<le> 1000000 \<Longrightarrow> to_double x = Finite x"
  using double_overflow_large by (auto simp: to_double_def)

lemma float_of_text_examples:
  "float_of_text ''1000'' = Some (Finite 1000)" "float_of_text ''500'' = Some (Finite 500)"
  "float_of_text ''-5'' = Some (Finite (- 5))" "float_of_text ''abc'' = None"
  "float_of_text ''700'' = Some (Finite 700)" "float_of_text ''nan'' = Some NaN"
  "float_of_text ''inf'' = Some PosInf"
  by (simp_all add: float_of_text_def nonfinite_literal_examples py_float_examples
      to_double_small)

lemmas update_value_defs =
  DatabaseManager_update_value_def py_lower_labels field_mapping_labels
  float_of_text_examples rowcount_def update_where_date_def set_numeric_def bind_double_def

lemma scenario_table_reached:
  "snd (DatabaseManager_update_value
       (snd (DatabaseManager_update_value
         (snd (DatabaseManager_add_shift [] ''01.03.2024'' ''22:00'' ''06:00''))
         ''01.03.2024'' vyruchka ''1000''))
       ''01.03.2024'' chai ''500'') = scenario_table"
  by (simp add: DatabaseManager_add_shift_def update_value_defs scenario_table_def)

subsection \<open>Profit of a stored date\<close>

text \<open>
  Claim C1. The claim asks for the hours-based profit of a stored date. On the scenario
  (22:00 to 06:00, revenue 1000, tips 500) the SQLite backend returns 1500, the
  revenue plus the tips: it reads neither the times nor the two rates. The profit of
  \<^verbatim>\<open>_calculate_profit\<close> for the same shift is 2275.
\<close>

theorem DatabaseManager_get_profit_omits_hours:
  "DatabaseManager_get_profit scenario_table ''01.03.2024'' = Some (Finite 1500)
   \<and> calculate_profit ''22:00'' ''06:00'' (PStr ''1000'') (PStr ''500'') = 2275"
proof -
  have "DatabaseManager_get_profit scenario_table ''01.03.2024'' = Some (Finite 1500)"
    by (simp add: DatabaseManager_get_profit_def scenario_table_def or_zero_def)
  then show ?thesis
    by (simp add: calculate_profit_examples)
qed

subsection \<open>Adding a shift for a date that has a record\<close>

text \<open>
  Claim C2. The claim asks that the revenue and the tips of an existing record stay
  as they are. On the scenario the spreadsheet backend rewrites the two times and
  keeps the revenue 1000 and the tips 500, while the SQLite backend's
  \<^verbatim>\<open>INSERT OR REPLACE\<close> leaves a row with revenue 0 and tips 0.
\<close>

theorem DatabaseManager_add_shift_resets_revenue_tips:
  "DatabaseManager_add_shift scenario_table ''01.03.2024'' ''21:00'' ''06:00''
     = (True, [\<lparr>date = ''01.03.2024'', start_time = ''21:00'', end_time = ''06:00'',
                revenue = Some (Finite 0), tips = Some (Finite 0)\<rparr>])
   \<and> GoogleSheetsManager_add_shift example_render scenario_sheet ''01.03.2024'' ''21:00'' ''06:00''
     = (True, \<lparr>initialized = True,
               worksheet = [[''Date'', ''Start'', ''End'', ''Revenue'', ''Tips'', ''Hours'', ''Profit''],
                            [''01.03.2024'', ''21:00'', ''06:00'', ''1000'', ''500'', [], ''2495'']]\<rparr>)"
proof -
  have db: "DatabaseManager_add_shift scenario_table ''01.03.2024'' ''21:00'' ''06:00''
     = (True, [\<lparr>date = ''01.03.2024'', start_time = ''21:00'', end_time = ''06:00'',
                revenue = Some (Finite 0), tips = Some (Finite 0)\<rparr>])"
    by (simp add: DatabaseManager_add_shift_def scenario_table_def)
  have times: "strptime_HM ''21:00'' \<noteq> None" "strptime_HM ''06:00'' \<noteq> None"
    by (simp_all add: strptime_HM_def matcher_defs)
  have ws1: "update_cell (update_cell (worksheet scenario_sheet) 2 2 ''21:00'') 2 3 ''06:00''
      = [[''Date'', ''Start'', ''End'', ''Revenue'', ''Tips'', ''Hours'', ''Profit''],
         [''01.03.2024'', ''21:00'', ''06:00'', ''1000'', ''500'']]"
    by (simp add: update_cell_def scenario_sheet_def Let_def)
  have gs: "GoogleSheetsManager_add_shift example_render scenario_sheet
        ''01.03.2024'' ''21:00'' ''06:00''
     = (True, \<lparr>initialized = True,
               worksheet = [[''Date'', ''Start'', ''End'', ''Revenue'', ''Tips'', ''Hours'', ''Profit''],
                            [''01.03.2024'', ''21:00'', ''06:00'', ''1000'', ''500'', [], ''2495'']]\<rparr>)"
    using times
    by (simp add: GoogleSheetsManager_add_shift_def format_date_scenario find_row_scenario
        ws1 Let_def)
      (simp add: scenario_sheet_def cell_value_def value_or_def calculate_profit_examples
        example_render_def update_cell_def Let_def numeral_2_eq_2)
  from db gs show ?thesis by simp
qed

subsection \<open>Shifts of a period\<close>

text \<open>
  Claim C6. The claim asks for the shifts of the calendar range, in calendar order.
  The query compares and orders the texts \<^verbatim>\<open>DD.MM.YYYY\<close>: asked for January 2024,
  it returns the shift of 1 March 2024 as well, and before the shift of 2 January.
\<close>

theorem get_shifts_in_period_compares_text:
  "get_shifts_in_period two_months_table ''01.01.2024'' ''31.01.2024''
     = [\<lparr>shift_date = ''01.03.2024'', shift_start = ''22:00'', shift_end = ''06:00'',
          shift_revenue = Finite 1000, shift_tips = Finite 100\<rparr>,
        \<lparr>shift_date = ''02.01.2024'', shift_start = ''10:00'', shift_end = ''18:00'',
          shift_revenue = Finite 2000, shift_tips = Finite 200\<rparr>]"
  by code_simp

subsection \<open>Updating one field\<close>





subsection \<open>Statistics of a period\<close>

lemma strptime_dmY_examples:
  "strptime_dmY ''01.01.2024'' = Some (2024, 1, 1)"
  "strptime_dmY ''31.01.2024'' = Some (2024, 1, 31)"
  "strptime_dmY ''01.03.2024'' = Some (2024, 3, 1)"
  "strptime_dmY ''20.12.2023'' = Some (2023, 12, 20)"
  "strptime_dmY ''10.02.2024'' = Some (2024, 2, 10)"
  "strptime_dmY ''15.01.2024'' = Some (2024, 1, 15)"
  by (simp_all add: date_defs matcher_defs)

text \<open>
  Claim C7. The claim asks for the statistics of the shifts whose date lies in the
  range. The query selects by the same comparison of texts as the query of
  \<open>get_shifts_in_period\<close>. Asked for January 2024 over a table that holds only the
  shift of 1 March 2024, it returns statistics with the count 1, where no record
  matches; asked for 20 December 2023 to 10 February 2024 over a table that holds the
  shift of 15 January 2024, it returns nothing, where one record matches. And after the
  revenue of 10 January has been set to \<^verbatim>\<open>nan\<close>, which is stored as NULL, the
  average revenue of the two shifts of January is 2000, the total 2000 divided by one
  row, not by the count 2.
\<close>

theorem get_statistics_compares_text:
  "\<not> in_calendar_range ''01.01.2024'' ''31.01.2024'' ''01.03.2024''
   \<and> get_statistics scenario_table ''01.01.2024'' ''31.01.2024''
       = Some \<lparr>shift_count = 1, total_revenue = Finite 1000, total_tips = Finite 500,
               total_profit = Finite 1500, avg_revenue = Finite 1000,
               avg_tips = Finite 500, avg_profit = Finite 1500\<rparr>
   \<and> in_calendar_range ''20.12.2023'' ''10.02.2024'' ''15.01.2024''
   \<and> get_statistics mid_january_table ''20.12.2023'' ''10.02.2024'' = None
   \<and> get_statistics
         (snd (DatabaseManager_update_value january_table ''10.01.2024'' vyruchka ''nan''))
         ''01.01.2024'' ''31.01.2024''
       = Some \<lparr>shift_count = 2, total_revenue = Finite 2000, total_tips = Finite 300,
               total_profit = Finite 2300, avg_revenue = Finite 2000,
               avg_tips = Finite 150, avg_profit = Finite 2150\<rparr>"
proof -
  have "\<not> in_calendar_range ''01.01.2024'' ''31.01.2024'' ''01.03.2024''"
    "in_calendar_range ''20.12.2023'' ''10.02.2024'' ''15.01.2024''"
    by (simp_all add: in_calendar_range_def strptime_dmY_examples calendar_le_def)
  moreover have "get_statistics scenario_table ''01.01.2024'' ''31.01.2024''
       = Some \<lparr>shift_count = 1, total_revenue = Finite 1000, total_tips = Finite 500,
               total_profit = Finite 1500, avg_revenue = Finite 1000,
               avg_tips = Finite 500, avg_profit = Finite 1500\<rparr>"
    by code_simp
  moreover have "get_statistics mid_january_table ''20.12.2023'' ''10.02.2024'' = None"
    by code_simp
  moreover have "snd (DatabaseManager_update_value january_table ''10.01.2024'' vyruchka ''nan'')
      = [\<lparr>date = ''10.01.2024'', start_time = ''10:00'', end_time = ''18:00'',
           revenue = None, tips = Some (Finite 100)\<rparr>,
         \<lparr>date = ''20.01.2024'', start_time = ''10:00'', end_time = ''18:00'',
           revenue = Some (Finite 2000), tips = Some (Finite 200)\<rparr>]"
    by (simp add: update_value_defs january_table_def)
  moreover have "get_statistics
        [\<lparr>date = ''10.01.2024'', start_time = ''10:00'', end_time = ''18:00'',
           revenue = None, tips = Some (Finite 100)\<rparr>,
         \<lparr>date = ''20.01.2024'', start_time = ''10:00'', end_time = ''18:00'',
           revenue = Some (Finite 2000), tips = Some (Finite 200)\<rparr>]
        ''01.01.2024'' ''31.01.2024''
       = Some \<lparr>shift_count = 2, total_revenue = Finite 2000, total_tips = Finite 300,
               total_profit = Finite 2300, avg_revenue = Finite 2000,
               avg_tips = Finite 150, avg_profit = Finite 2150\<rparr>"
    by code_simp
  ultimately show ?thesis by simp
qed

end
